theory Spec2Isabelle
  imports Complex_Main "HOL-Library.Word"
begin

unbundle bit_operations_syntax

section \<open>Raw memory\<close>

text \<open>
  Addresses and \<open>size_t\<close> values are 64-bit words; pointer arithmetic wraps as the
  machine's does. Memory is a flat array of bytes. A pointer is stored in eight consecutive
  bytes, least significant byte first, so that two stores whose byte ranges overlap
  interfere with each other exactly as they do on the machine.

  Every byte of this memory can be read and written: the model is a process whose whole
  address space is mapped. It does not say where an ordinary process would fault, so a
  load or store through memory that no call to the allocator acquired returns here, and
  \<open>acquired\<close> below is the means to tell that an address is such memory. The worked
  examples state the memory they run on.
\<close>

type_synonym addr = "64 word"
type_synonym heap = "addr \<Rightarrow> 8 word"

definition byte_of :: "addr \<Rightarrow> nat \<Rightarrow> 8 word" where
  "byte_of v i = ucast (drop_bit (8 * i) v)"

definition store64 :: "heap \<Rightarrow> addr \<Rightarrow> addr \<Rightarrow> heap" where
  "store64 h p v = (\<lambda>x. if x - p < 8 then byte_of v (unat (x - p)) else h x)"

definition load64 :: "heap \<Rightarrow> addr \<Rightarrow> addr" where
  "load64 h p =
     ucast (h p) OR push_bit 8 (ucast (h (p + 1))) OR push_bit 16 (ucast (h (p + 2)))
       OR push_bit 24 (ucast (h (p + 3))) OR push_bit 32 (ucast (h (p + 4)))
       OR push_bit 40 (ucast (h (p + 5))) OR push_bit 48 (ucast (h (p + 6)))
       OR push_bit 56 (ucast (h (p + 7)))"

section \<open>Template parameter, errors, allocator events\<close>

text \<open>
  \<open>sizeof_T\<close> and \<open>alignof_T\<close> stand for \<open>sizeof(T)\<close> and \<open>alignof(T)\<close> of the template
  argument. The growth factor is a \<open>float\<close>; the product
  \<open>mNextAllocSize * mAllocSizeGrow\<close>, converted back to \<open>size_t\<close>, is the parameter
  \<open>float_mul\<close>, and the factor itself is kept as the rational number the float denotes.
\<close>

record tparams =
  sizeof_T :: "64 word"
  alignof_T :: "64 word"
  float_mul :: "64 word \<Rightarrow> rat \<Rightarrow> 64 word"

datatype error = AssertionFailed

text \<open>
  The calls the pool makes to the system allocator: \<open>Malloc n r\<close> is \<open>malloc(n)\<close>
  returning \<open>r\<close> (null when it fails), \<open>Free p\<close> is \<open>free(p)\<close>.
\<close>

datatype event = Malloc "64 word" addr | Free addr

definition sizeof_ptr :: "64 word" where
  "sizeof_ptr = 8"

section \<open>art::internal::align\<close>

definition align :: "addr \<Rightarrow> 64 word \<Rightarrow> error + addr" where
  "align ptr alignment =
     (let ptr' = ptr + (alignment - (ptr AND (push_bit 1 alignment - 1)))
      in if ptr' mod alignment \<noteq> 0 then Inl AssertionFailed else Inr ptr')"

section \<open>art::internal::PointerList\<close>

text \<open>
  The list is its head pointer \<open>mList\<close>; the links live in the memory the list tracks.
  \<open>push\<close> returns the memory and the head after the call, \<open>pop\<close> the popped pointer and
  the new head.
\<close>

definition push :: "heap \<Rightarrow> addr \<Rightarrow> addr \<Rightarrow> heap \<times> addr" where
  "push h mList ptr = (store64 h ptr mList, ptr)"

definition pop :: "heap \<Rightarrow> addr \<Rightarrow> error + addr \<times> addr" where
  "pop h mList =
     (if mList = 0 then Inl AssertionFailed else Inr (mList, load64 h mList))"

section \<open>art::MemoryPool\<close>

record state =
  mBlockList :: addr
  mChunkList :: addr
  mNextAllocSize :: "64 word"
  mAllocSizeGrow :: rat
  mCurrentBlock :: addr
  mCurrentBlockEnd :: addr
  memory :: heap
  trace :: "event list"

definition MemoryPool :: "tparams \<Rightarrow> heap \<Rightarrow> rat \<Rightarrow> error + state" where
  "MemoryPool T h allocSizeGrow =
     (if \<not> sizeof_ptr \<le> sizeof_T T then Inl AssertionFailed
      else if \<not> (1 \<le> allocSizeGrow \<and> allocSizeGrow \<le> 2) then Inl AssertionFailed
      else Inr \<lparr> mBlockList = 0, mChunkList = 0, mNextAllocSize = 1024,
                 mAllocSizeGrow = allocSizeGrow, mCurrentBlock = 0, mCurrentBlockEnd = 0,
                 memory = h, trace = [] \<rparr>)"

definition bytesToAlloc :: "tparams \<Rightarrow> state \<Rightarrow> 64 word" where
  "bytesToAlloc T s = mNextAllocSize s * sizeof_T T + alignof_T T"

text \<open>
  \<open>callMalloc T m s\<close>: \<open>m\<close> is what \<open>malloc\<close> answers to this call, null for a failure.
\<close>

definition callMalloc :: "tparams \<Rightarrow> addr \<Rightarrow> state \<Rightarrow> addr \<times> state" where
  "callMalloc T m s =
     (let s1 = s \<lparr> trace := trace s @ [Malloc (bytesToAlloc T s) m] \<rparr>;
          s2 = (if m \<noteq> 0
                then (case push (memory s1) (mBlockList s1) m of
                        (h, l) \<Rightarrow> s1 \<lparr> memory := h, mBlockList := l \<rparr>)
                else s1);
          s3 = s2 \<lparr> mNextAllocSize := float_mul T (mNextAllocSize s2) (mAllocSizeGrow s2) \<rparr>
      in (m, s3))"

definition alignedMalloc :: "tparams \<Rightarrow> addr \<Rightarrow> state \<Rightarrow> error + addr \<times> state" where
  "alignedMalloc T m s =
     (case callMalloc T m s of
        (p, s') \<Rightarrow>
          (case align (p + sizeof_ptr) (alignof_T T) of
             Inl e \<Rightarrow> Inl e
           | Inr q \<Rightarrow> Inr (q, s')))"

definition allocBlock :: "tparams \<Rightarrow> addr \<Rightarrow> state \<Rightarrow> error + state" where
  "allocBlock T m s =
     (let allocSize = mNextAllocSize s
      in case alignedMalloc T m s of
           Inl e \<Rightarrow> Inl e
         | Inr (q, s') \<Rightarrow>
             Inr (s' \<lparr> mCurrentBlock := q, mCurrentBlockEnd := q + allocSize * sizeof_T T \<rparr>))"

definition createChunk :: "tparams \<Rightarrow> state \<Rightarrow> error + addr \<times> state" where
  "createChunk T s =
     (if \<not> mCurrentBlock s + sizeof_T T \<le> mCurrentBlockEnd s then Inl AssertionFailed
      else let chunk = mCurrentBlock s;
               s' = s \<lparr> mCurrentBlock := mCurrentBlock s + sizeof_T T \<rparr>
           in if chunk mod alignof_T T \<noteq> 0 then Inl AssertionFailed else Inr (chunk, s'))"

definition allocate :: "tparams \<Rightarrow> addr \<Rightarrow> state \<Rightarrow> error + addr \<times> state" where
  "allocate T m s =
     (if mChunkList s \<noteq> 0
      then (case pop (memory s) (mChunkList s) of
              Inl e \<Rightarrow> Inl e
            | Inr (p, l) \<Rightarrow> Inr (p, s \<lparr> mChunkList := l \<rparr>))
      else if mCurrentBlock s + sizeof_T T \<le> mCurrentBlockEnd s
      then createChunk T s
      else (case allocBlock T m s of
              Inl e \<Rightarrow> Inl e
            | Inr s' \<Rightarrow> createChunk T s'))"

definition deallocate :: "addr \<Rightarrow> state \<Rightarrow> error + state" where
  "deallocate ptr s =
     (if ptr = 0 then Inl AssertionFailed
      else case push (memory s) (mChunkList s) ptr of
             (h, l) \<Rightarrow> Inr (s \<lparr> memory := h, mChunkList := l \<rparr>))"

text \<open>
  The loop of \<open>reserve\<close>. It ends when \<open>memory\<close> meets \<open>memoryEnd\<close>, which wrapped
  pointer arithmetic does not guarantee for arbitrary arguments; \<open>None\<close> is the loop
  that never ends.
\<close>

partial_function (option) reserve_loop ::
  "tparams \<Rightarrow> addr \<Rightarrow> addr \<Rightarrow> state \<Rightarrow> (error + state) option" where
  "reserve_loop T mem memoryEnd s =
     (if mem = memoryEnd then Some (Inr s)
      else if \<not> mem < memoryEnd then Some (Inl AssertionFailed)
      else if mem mod alignof_T T \<noteq> 0 then Some (Inl AssertionFailed)
      else case push (memory s) (mChunkList s) mem of
             (h, l) \<Rightarrow>
               reserve_loop T (mem + sizeof_T T) memoryEnd (s \<lparr> memory := h, mChunkList := l \<rparr>))"

declare reserve_loop.simps [code]

definition reserve :: "tparams \<Rightarrow> addr \<Rightarrow> 64 word \<Rightarrow> state \<Rightarrow> (error + state) option" where
  "reserve T m n s =
     (if n = 0 then Some (Inl AssertionFailed)
      else let s1 = s \<lparr> mNextAllocSize := n \<rparr>;
               allocSize = mNextAllocSize s1
           in case alignedMalloc T m s1 of
                Inl e \<Rightarrow> Some (Inl e)
              | Inr (mem, s2) \<Rightarrow>
                  let memoryEnd = mem + allocSize * sizeof_T T
                  in if mem = 0 then Some (Inr s2)
                     else reserve_loop T mem memoryEnd s2)"

text \<open>
  The destructor: pops the block list until it is empty and frees each popped pointer.
  \<open>None\<close> is the loop that never ends (a cyclic list).
\<close>

partial_function (option) destroy :: "state \<Rightarrow> (error + state) option" where
  "destroy s =
     (if mBlockList s \<noteq> 0
      then (case pop (memory s) (mBlockList s) of
              Inl e \<Rightarrow> Some (Inl e)
            | Inr (p, l) \<Rightarrow> destroy (s \<lparr> mBlockList := l, trace := trace s @ [Free p] \<rparr>))
      else Some (Inr s))"

declare destroy.simps [code]

section \<open>Client programs\<close>

text \<open>
  A client's calls on one pool, in order. \<open>Allocate m\<close> and \<open>Reserve n m\<close> carry \<open>m\<close>,
  the answer of \<open>malloc\<close> should the call reach it. \<open>run\<close> returns the pointers the
  \<open>allocate\<close> calls returned, oldest first, and the state after the last call.
\<close>

datatype call = Allocate addr | Deallocate addr | Reserve "64 word" addr

fun run :: "tparams \<Rightarrow> call list \<Rightarrow> state \<Rightarrow> (error + addr list \<times> state) option" where
  "run T [] s = Some (Inr ([], s))"
| "run T (Allocate m # cs) s =
     (case allocate T m s of
        Inl e \<Rightarrow> Some (Inl e)
      | Inr (p, s') \<Rightarrow>
          (case run T cs s' of
             None \<Rightarrow> None
           | Some (Inl e) \<Rightarrow> Some (Inl e)
           | Some (Inr (ps, s'')) \<Rightarrow> Some (Inr (p # ps, s''))))"
| "run T (Deallocate p # cs) s =
     (case deallocate p s of
        Inl e \<Rightarrow> Some (Inl e)
      | Inr s' \<Rightarrow> run T cs s')"
| "run T (Reserve n m # cs) s =
     (case reserve T m n s of
        None \<Rightarrow> None
      | Some (Inl e) \<Rightarrow> Some (Inl e)
      | Some (Inr s') \<Rightarrow> run T cs s')"

text \<open>
  \<open>program\<close>: construct a pool over memory \<open>h\<close> with growth factor \<open>g\<close>, then make the
  calls. \<open>lifetime\<close>: the same, then the destructor; the result is every call made to the
  system allocator, in order.
\<close>

definition program ::
  "tparams \<Rightarrow> heap \<Rightarrow> rat \<Rightarrow> call list \<Rightarrow> (error + addr list \<times> state) option" where
  "program T h g cs =
     (case MemoryPool T h g of
        Inl e \<Rightarrow> Some (Inl e)
      | Inr s \<Rightarrow> run T cs s)"

definition lifetime ::
  "tparams \<Rightarrow> heap \<Rightarrow> rat \<Rightarrow> call list \<Rightarrow> (error + event list) option" where
  "lifetime T h g cs =
     (case program T h g cs of
        None \<Rightarrow> None
      | Some (Inl e) \<Rightarrow> Some (Inl e)
      | Some (Inr (ps, s)) \<Rightarrow>
          (case destroy s of
             None \<Rightarrow> None
           | Some (Inl e) \<Rightarrow> Some (Inl e)
           | Some (Inr s') \<Rightarrow> Some (Inr (trace s'))))"

text \<open>
  Concrete template arguments for worked examples: a type of size \<open>sz\<close> and alignment
  \<open>al\<close>. Its \<open>float_mul\<close> is the exact product rounded down, which is what the
  \<open>float\<close> computation yields whenever the count and the product need no rounding in
  \<open>float\<close>, as with the factors 1 and 2 and counts below \<open>2 ^ 24\<close>.
\<close>

definition exact_mul :: "64 word \<Rightarrow> rat \<Rightarrow> 64 word" where
  "exact_mul n g = word_of_int \<lfloor>of_int (uint n) * g\<rfloor>"

definition type_of :: "64 word \<Rightarrow> 64 word \<Rightarrow> tparams" where
  "type_of sz al = \<lparr> sizeof_T = sz, alignof_T = al, float_mul = exact_mul \<rparr>"

definition zeroed :: heap where
  "zeroed = (\<lambda>_. 0)"

section \<open>Vocabulary of the properties\<close>

text \<open>
  The alignments \<open>align\<close> is meant for, and the template arguments the pool is meant for:
  an object at least as large as a pointer (the constructor asserts it), a power-of-two
  alignment of at most 64, and, as for every C++ type, a size that is a multiple of the
  alignment.
\<close>

definition power_of_two :: "64 word \<Rightarrow> bool" where
  "power_of_two a = (a \<in> set (map (\<lambda>k. 2 ^ k) [0..<64]))"







text \<open>
  \<open>kept s s'\<close>: everything but the memory and the free-chunk list is the same in \<open>s\<close> and
  \<open>s'\<close>.
\<close>

definition kept :: "state \<Rightarrow> state \<Rightarrow> bool" where
  "kept s s' =
     (trace s' = trace s \<and> mNextAllocSize s' = mNextAllocSize s
      \<and> mAllocSizeGrow s' = mAllocSizeGrow s \<and> mBlockList s' = mBlockList s
      \<and> mCurrentBlock s' = mCurrentBlock s \<and> mCurrentBlockEnd s' = mCurrentBlockEnd s)"

text \<open>
  \<open>acquired evs p\<close>: the byte at \<open>p\<close> lies in a block that a successful \<open>malloc\<close> among
  the calls \<open>evs\<close> returned.
\<close>

definition acquired :: "event list \<Rightarrow> addr \<Rightarrow> bool" where
  "acquired evs p =
     list_ex (\<lambda>e. case e of Malloc n r \<Rightarrow> r \<noteq> 0 \<and> p - r < n | Free q \<Rightarrow> False) evs"

text \<open>Calls other than \<open>reserve\<close>.\<close>

fun no_reserve :: "call \<Rightarrow> bool" where
  "no_reserve (Reserve n m) = False"
| "no_reserve (Allocate m) = True"
| "no_reserve (Deallocate p) = True"

text \<open>
  A worked example: a new pool for a type of size 8 and alignment 8 with growth factor 2,
  the pool after \<open>reserve(3)\<close> served by a block at 4096, and the pool after three more
  calls of \<open>allocate\<close>.
\<close>

definition example_type :: tparams where
  "example_type = type_of 8 8"

definition example_new :: state where
  "example_new = projr (MemoryPool example_type zeroed 2)"

definition example_reserved :: state where
  "example_reserved = projr (the (reserve example_type 4096 3 example_new))"

definition example_drained :: state where
  "example_drained =
     snd (projr (the (run example_type [Allocate 0, Allocate 0, Allocate 0] example_reserved)))"

section \<open>Loads and stores\<close>




section \<open>The alignment utility\<close>


lemma power_of_twoI: "k < 64 \<Longrightarrow> power_of_two (2 ^ k)"
  by (simp add: power_of_two_def)









text \<open>
  C4. For a power-of-two alignment, \<open>align\<close> should return an address that is a multiple of
  the alignment and not below the input. It advances the address by
  alignment - (address mod (2 * alignment)) (\<open>align_pow2\<close>), and the result is a multiple of
  the alignment (\<open>align_result_aligned\<close>); but when address mod (2 * alignment) exceeds the
  alignment the advance is negative. \<open>alignedMalloc\<close> calls \<open>align(4120, 16)\<close> for a type of
  alignment 16 and a block at 4112: 4120 mod 32 = 24, and the result is 4112, below the
  input and on the block's own header.
\<close>

theorem align_below_input:
  "power_of_two 16 \<and> align 4120 16 = Inr 4112 \<and> \<not> (4120::addr) \<le> 4112"
proof -
  have "power_of_two 16" using power_of_twoI[of 4] by simp
  moreover have "align 4120 16 = Inr 4112" by code_simp
  ultimately show ?thesis by simp
qed







lemma callMalloc_fields:
  "mChunkList (snd (callMalloc T m s)) = mChunkList s"
  "mCurrentBlock (snd (callMalloc T m s)) = mCurrentBlock s"
  "mCurrentBlockEnd (snd (callMalloc T m s)) = mCurrentBlockEnd s"
  "mAllocSizeGrow (snd (callMalloc T m s)) = mAllocSizeGrow s"
  "mNextAllocSize (snd (callMalloc T m s)) = float_mul T (mNextAllocSize s) (mAllocSizeGrow s)"
  "trace (snd (callMalloc T m s)) = trace s @ [Malloc (bytesToAlloc T s) m]"
  "mBlockList (snd (callMalloc T m s)) = (if m \<noteq> 0 then m else mBlockList s)"
  "memory (snd (callMalloc T m s))
     = (if m \<noteq> 0 then store64 (memory s) m (mBlockList s) else memory s)"
  by (simp_all add: callMalloc_def Let_def push_def)


lemma allocate_pop:
  assumes "mChunkList s \<noteq> 0"
  shows "allocate T m s
         = Inr (mChunkList s, s \<lparr> mChunkList := load64 (memory s) (mChunkList s) \<rparr>)"
  using assms by (simp add: allocate_def pop_def)

lemma deallocate_push:
  assumes "p \<noteq> 0"
  shows "deallocate p s
         = Inr (s \<lparr> memory := store64 (memory s) p (mChunkList s), mChunkList := p \<rparr>)"
  using assms by (simp add: deallocate_def push_def)


section \<open>The loop of reserve\<close>

lemma kept_refl: "kept s s" by (simp add: kept_def)

lemma kept_push:
  "kept (s \<lparr> memory := h, mChunkList := l \<rparr>) s' \<Longrightarrow> kept s s'"
  by (simp add: kept_def)

lemma reserve_loop_keeps:
  assumes "reserve_loop T mem memoryEnd s = Some y"
  shows "\<forall>s'. y = Inr s' \<longrightarrow> kept s s'"
proof (rule reserve_loop.raw_induct
    [where P = "\<lambda>T mem memoryEnd s y. \<forall>s'. y = Inr s' \<longrightarrow> kept s s'", OF _ assms])
  fix loop :: "tparams \<Rightarrow> addr \<Rightarrow> addr \<Rightarrow> state \<Rightarrow> (error + state) option"
    and T :: tparams and mem memoryEnd :: addr and s :: state and y :: "error + state"
  assume IH: "\<And>T mem memoryEnd s y. loop T mem memoryEnd s = Some y
      \<Longrightarrow> \<forall>s'. y = Inr s' \<longrightarrow> kept s s'"
  assume eq: "(if mem = memoryEnd then Some (Inr s)
      else if \<not> mem < memoryEnd then Some (Inl AssertionFailed)
           else if mem mod alignof_T T \<noteq> 0 then Some (Inl AssertionFailed)
                else case push (memory s) (mChunkList s) mem of
                     (h, l) \<Rightarrow> loop T (mem + sizeof_T T) memoryEnd
                        (s\<lparr>memory := h, mChunkList := l\<rparr>)) = Some y"
  show "\<forall>s'. y = Inr s' \<longrightarrow> kept s s'"
  proof (cases "mem = memoryEnd")
    case True
    then have "y = Inr s" using eq by simp
    then show ?thesis by (simp add: kept_refl)
  next
    case ne: False
    show ?thesis
    proof (cases "mem < memoryEnd")
      case lt: True
      show ?thesis
      proof (cases "mem mod alignof_T T = 0")
        case True
        have "loop T (mem + sizeof_T T) memoryEnd
           (s \<lparr> memory := store64 (memory s) mem (mChunkList s), mChunkList := mem \<rparr>) = Some y"
          using eq by (simp only: ne lt True push_def if_False if_True not_True_eq_False 
              simp_thms prod.case)
        from IH[OF this] show ?thesis by (auto intro: kept_push)
      next
        case False
        then have "y = Inl AssertionFailed" using eq ne lt by simp
        then show ?thesis by simp
      qed
    next
      case False
      then have "y = Inl AssertionFailed" using eq ne by simp
      then show ?thesis by simp
    qed
  qed
qed






lemma alignedMalloc_state:
  "alignedMalloc T m s = Inr (q, s') \<Longrightarrow> s' = snd (callMalloc T m s)"
  by (auto simp add: alignedMalloc_def split: prod.splits sum.splits)

lemma reserve_keeps:
  assumes "reserve T m n s = Some (Inr s')"
  shows "kept (snd (callMalloc T m (s \<lparr> mNextAllocSize := n \<rparr>))) s'"
proof -
  let ?s1 = "s \<lparr> mNextAllocSize := n \<rparr>"
  have n0: "n \<noteq> 0" using assms by (auto simp add: reserve_def)
  show ?thesis
  proof (cases "alignedMalloc T m ?s1")
    case (Inl e)
    then show ?thesis using assms n0 by (simp add: reserve_def Let_def)
  next
    case (Inr r)
    obtain q s2 where r: "r = (q, s2)" by (cases r)
    have s2: "s2 = snd (callMalloc T m ?s1)"
      using Inr r alignedMalloc_state by simp
    show ?thesis
    proof (cases "q = 0")
      case True
      then have "s' = s2" using assms n0 Inr r by (simp add: reserve_def Let_def)
      then show ?thesis using s2 by (simp add: kept_refl)
    next
      case False
      then have "reserve_loop T q (q + n * sizeof_T T) s2 = Some (Inr s')"
        using assms n0 Inr r by (simp add: reserve_def Let_def)
      from reserve_loop_keeps[OF this] show ?thesis using s2 by simp
    qed
  qed
qed

lemma reserve_request:
  assumes "reserve T m n s = Some (Inr s')"
  shows "trace s' = trace s @ [Malloc (n * sizeof_T T + alignof_T T) m]"
    and "mNextAllocSize s' = float_mul T n (mAllocSizeGrow s)"
    and "mAllocSizeGrow s' = mAllocSizeGrow s"
    and "mBlockList s' = (if m \<noteq> 0 then m else mBlockList s)"
    and "mCurrentBlock s' = mCurrentBlock s"
    and "mCurrentBlockEnd s' = mCurrentBlockEnd s"
  using reserve_keeps[OF assms]
  by (simp_all add: kept_def callMalloc_fields bytesToAlloc_def)

section \<open>What reaches the system allocator\<close>

lemma createChunk_state:
  "createChunk T s = Inr (p, s') \<Longrightarrow> s' = s \<lparr> mCurrentBlock := mCurrentBlock s + sizeof_T T \<rparr>"
  by (auto simp add: createChunk_def Let_def split: if_splits)

lemma allocBlock_state:
  "allocBlock T m s = Inr s' \<Longrightarrow>
     \<exists>q e. s' = snd (callMalloc T m s) \<lparr> mCurrentBlock := q, mCurrentBlockEnd := e \<rparr>"
  by (auto simp add: allocBlock_def Let_def dest: alignedMalloc_state split: sum.splits)

lemma allocate_trace:
  assumes "allocate T m s = Inr (p, s')"
  shows "(trace s' = trace s \<and> mNextAllocSize s' = mNextAllocSize s)
         \<or> trace s' = trace s @ [Malloc (bytesToAlloc T s) m]"
proof (cases "mChunkList s \<noteq> 0")
  case True
  then show ?thesis using assms by (auto simp add: allocate_pop)
next
  case empty: False
  show ?thesis
  proof (cases "mCurrentBlock s + sizeof_T T \<le> mCurrentBlockEnd s")
    case True
    then have "createChunk T s = Inr (p, s')" using assms empty by (simp add: allocate_def)
    from createChunk_state[OF this] show ?thesis by simp
  next
    case False
    then obtain s1 where b: "allocBlock T m s = Inr s1" and c: "createChunk T s1 = Inr (p, s')"
      using assms empty by (auto simp add: allocate_def split: sum.splits)
    obtain q e where "s1 = snd (callMalloc T m s) \<lparr> mCurrentBlock := q, mCurrentBlockEnd := e \<rparr>"
      using allocBlock_state[OF b] by blast
    then show ?thesis using createChunk_state[OF c] by (simp add: callMalloc_fields)
  qed
qed

lemma deallocate_trace:
  assumes "deallocate p s = Inr s'"
  shows "trace s' = trace s \<and> mNextAllocSize s' = mNextAllocSize s"
  using assms by (auto simp add: deallocate_def push_def split: if_splits)

lemma run_trace_prefix:
  "run T cs s = Some (Inr (ps, s')) \<Longrightarrow> \<exists>evs. trace s' = trace s @ evs"
proof (induction cs arbitrary: s ps)
  case Nil
  then show ?case by simp
next
  case (Cons c cs)
  show ?case
  proof (cases c)
    case (Allocate m)
    then obtain p s1 ps1 where a: "allocate T m s = Inr (p, s1)"
      and r: "run T cs s1 = Some (Inr (ps1, s'))"
      using Cons.prems by (auto split: sum.splits option.splits)
    obtain evs where "trace s' = trace s1 @ evs" using Cons.IH[OF r] by blast
    then show ?thesis using allocate_trace[OF a] by auto
  next
    case (Deallocate p)
    then obtain s1 where d: "deallocate p s = Inr s1"
      and r: "run T cs s1 = Some (Inr (ps, s'))"
      using Cons.prems by (auto split: sum.splits)
    obtain evs where "trace s' = trace s1 @ evs" using Cons.IH[OF r] by blast
    then show ?thesis using deallocate_trace[OF d] by auto
  next
    case (Reserve n m)
    then obtain s1 where d: "reserve T m n s = Some (Inr s1)"
      and r: "run T cs s1 = Some (Inr (ps, s'))"
      using Cons.prems by (auto split: sum.splits option.splits)
    obtain evs where "trace s' = trace s1 @ evs" using Cons.IH[OF r] by blast
    then show ?thesis using reserve_request(1)[OF d] by auto
  qed
qed

lemma run_quiet:
  "run T cs s = Some (Inr (ps, s')) \<Longrightarrow> list_all no_reserve cs \<Longrightarrow> trace s' = trace s
     \<Longrightarrow> mNextAllocSize s' = mNextAllocSize s"
proof (induction cs arbitrary: s ps)
  case Nil
  then show ?case by simp
next
  case (Cons c cs)
  show ?case
  proof (cases c)
    case (Allocate m)
    then obtain p s1 ps1 where a: "allocate T m s = Inr (p, s1)"
      and r: "run T cs s1 = Some (Inr (ps1, s'))"
      using Cons.prems(1) by (auto split: sum.splits option.splits)
    obtain evs where e: "trace s' = trace s1 @ evs" using run_trace_prefix[OF r] by blast
    have same: "trace s1 = trace s \<and> mNextAllocSize s1 = mNextAllocSize s"
      using allocate_trace[OF a] e Cons.prems(3) by auto
    then have "mNextAllocSize s' = mNextAllocSize s1"
      using Cons.IH[OF r] Cons.prems(2,3) by simp
    then show ?thesis using same by simp
  next
    case (Deallocate p)
    then obtain s1 where d: "deallocate p s = Inr s1"
      and r: "run T cs s1 = Some (Inr (ps, s'))"
      using Cons.prems(1) by (auto split: sum.splits)
    have same: "trace s1 = trace s \<and> mNextAllocSize s1 = mNextAllocSize s"
      using deallocate_trace[OF d] .
    then have "mNextAllocSize s' = mNextAllocSize s1"
      using Cons.IH[OF r] Cons.prems(2,3) by simp
    then show ?thesis using same by simp
  next
    case (Reserve n m)
    then show ?thesis using Cons.prems(2) by simp
  qed
qed

lemma allocate_acquires:
  assumes "mChunkList s = 0" "\<not> mCurrentBlock s + sizeof_T T \<le> mCurrentBlockEnd s"
    and "allocate T m s = Inr (p, s')"
  shows "trace s' = trace s @ [Malloc (bytesToAlloc T s) m]"
proof -
  obtain s1 where b: "allocBlock T m s = Inr s1" and c: "createChunk T s1 = Inr (p, s')"
    using assms by (auto simp add: allocate_def split: sum.splits)
  obtain q e where "s1 = snd (callMalloc T m s) \<lparr> mCurrentBlock := q, mCurrentBlockEnd := e \<rparr>"
    using allocBlock_state[OF b] by blast
  then show ?thesis using createChunk_state[OF c] by (simp add: callMalloc_fields)
qed

lemma MemoryPool_state:
  assumes "MemoryPool T h g = Inr s0"
  shows "s0 = \<lparr> mBlockList = 0, mChunkList = 0, mNextAllocSize = 1024,
                 mAllocSizeGrow = g, mCurrentBlock = 0, mCurrentBlockEnd = 0,
                 memory = h, trace = [] \<rparr>"
    and "sizeof_ptr \<le> sizeof_T T" and "1 \<le> g" and "g \<le> 2"
  using assms by (auto simp add: MemoryPool_def split: if_splits)

section \<open>Growth of the block size\<close>

text \<open>
  C10. The first block acquisition of a new pool requests room for 1024 chunks. Every
  \<open>reserve(n)\<close> that returns has requested room for exactly \<open>n\<close> chunks, whatever the
  next-allocation count was before, and leaves the count at \<open>n\<close> times the growth factor
  (the \<open>float\<close> product \<open>float_mul\<close>). The next acquisition \<open>allocate\<close> makes after it,
  with any calls of \<open>allocate\<close> and \<open>deallocate\<close> in between that acquire nothing, requests
  room for that many chunks.
\<close>

theorem reserve_resets_growth:
  "(MemoryPool T h g = Inr s0 \<and> allocate T m0 s0 = Inr (p0, s1)
      \<longrightarrow> trace s1 = [Malloc (1024 * sizeof_T T + alignof_T T) m0])
   \<and> (reserve T m n s = Some (Inr s')
      \<longrightarrow> trace s' = trace s @ [Malloc (n * sizeof_T T + alignof_T T) m]
          \<and> mNextAllocSize s' = float_mul T n (mAllocSizeGrow s))
   \<and> (reserve T m n s = Some (Inr s') \<and> run T cs s' = Some (Inr (ps, s''))
        \<and> list_all no_reserve cs \<and> trace s'' = trace s'
        \<and> allocate T m' s'' = Inr (p', s''') \<and> trace s''' \<noteq> trace s''
      \<longrightarrow> trace s''' = trace s''
            @ [Malloc (float_mul T n (mAllocSizeGrow s) * sizeof_T T + alignof_T T) m'])"
proof (intro conjI impI)
  assume h: "MemoryPool T h g = Inr s0 \<and> allocate T m0 s0 = Inr (p0, s1)"
  then have s0: "s0 = \<lparr> mBlockList = 0, mChunkList = 0, mNextAllocSize = 1024,
                 mAllocSizeGrow = g, mCurrentBlock = 0, mCurrentBlockEnd = 0,
                 memory = h, trace = [] \<rparr>" and sz: "sizeof_ptr \<le> sizeof_T T"
    using MemoryPool_state[of T h g s0] by simp_all
  have sz0: "sizeof_T T \<noteq> 0" using sz by (auto simp add: sizeof_ptr_def)
  have "trace s1 = trace s0 @ [Malloc (bytesToAlloc T s0) m0]"
    using h sz0 by (intro allocate_acquires[of s0 T m0 p0 s1]) (simp_all add: s0)
  then show "trace s1 = [Malloc (1024 * sizeof_T T + alignof_T T) m0]"
    by (simp add: s0 bytesToAlloc_def)
next
  assume r: "reserve T m n s = Some (Inr s')"
  show "trace s' = trace s @ [Malloc (n * sizeof_T T + alignof_T T) m]"
    by (rule reserve_request(1)[OF r])
  show "mNextAllocSize s' = float_mul T n (mAllocSizeGrow s)"
    by (rule reserve_request(2)[OF r])
next
  assume h: "reserve T m n s = Some (Inr s') \<and> run T cs s' = Some (Inr (ps, s''))
        \<and> list_all no_reserve cs \<and> trace s'' = trace s'
        \<and> allocate T m' s'' = Inr (p', s''') \<and> trace s''' \<noteq> trace s''"
  then have r: "reserve T m n s = Some (Inr s')" and run: "run T cs s' = Some (Inr (ps, s''))"
    and nr: "list_all no_reserve cs" and q: "trace s'' = trace s'"
    and a: "allocate T m' s'' = Inr (p', s''')" and ne: "trace s''' \<noteq> trace s''"
    by blast+
  have "mNextAllocSize s'' = mNextAllocSize s'" by (rule run_quiet[OF run nr q])
  then have "bytesToAlloc T s'' = float_mul T n (mAllocSizeGrow s) * sizeof_T T + alignof_T T"
    using reserve_request(2)[OF r] by (simp add: bytesToAlloc_def)
  then show "trace s''' = trace s''
            @ [Malloc (float_mul T n (mAllocSizeGrow s) * sizeof_T T + alignof_T T) m']"
    using allocate_trace[OF a] ne by auto
qed

lemma Inr_projr: "\<not> isl x \<Longrightarrow> x = Inr (projr x)"
  by (cases x) simp_all

lemma Some_Inr_projr:
  "(case x of None \<Rightarrow> False | Some r \<Rightarrow> \<not> isl r) \<Longrightarrow> x = Some (Inr (projr (the x)))"
  by (cases x) (simp_all add: Inr_projr)

lemma example_new: "MemoryPool example_type zeroed 2 = Inr example_new"
proof -
  have "\<not> isl (MemoryPool example_type zeroed 2)" by code_simp
  then show ?thesis unfolding example_new_def by (rule Inr_projr)
qed

lemma example_reserved: "reserve example_type 4096 3 example_new = Some (Inr example_reserved)"
proof -
  have "case reserve example_type 4096 3 example_new of None \<Rightarrow> False | Some r \<Rightarrow> \<not> isl r"
    by code_simp
  then show ?thesis unfolding example_reserved_def by (rule Some_Inr_projr)
qed

lemma example_drained:
  "run example_type [Allocate 0, Allocate 0, Allocate 0] example_reserved
   = Some (Inr (fst (projr (the (run example_type [Allocate 0, Allocate 0, Allocate 0]
                                   example_reserved))),
                example_drained))"
proof -
  have "case run example_type [Allocate 0, Allocate 0, Allocate 0] example_reserved of
          None \<Rightarrow> False | Some r \<Rightarrow> \<not> isl r"
    by code_simp
  then show ?thesis unfolding example_drained_def
    by (simp only: prod.collapse) (rule Some_Inr_projr)
qed

theorem reserve_resets_growth_witness:
  "trace (snd (projr (allocate example_type 4096 example_new))) = [Malloc 8200 4096]
   \<and> trace example_reserved = [Malloc 32 4096]
   \<and> mNextAllocSize example_reserved = 6
   \<and> trace (snd (projr (allocate example_type 8192 example_drained)))
       = [Malloc 32 4096, Malloc 56 8192]"
proof -
  let ?a = "allocate example_type 4096 example_new"
  let ?b = "allocate example_type 8192 example_drained"
  let ?cs = "[Allocate 0, Allocate 0, Allocate 0]"
  let ?ps = "fst (projr (the (run example_type ?cs example_reserved)))"
  have ha: "?a = Inr (fst (projr ?a), snd (projr ?a))"
  proof -
    have "\<not> isl ?a" by code_simp
    then show ?thesis by (simp only: prod.collapse) (rule Inr_projr)
  qed
  have hb: "?b = Inr (fst (projr ?b), snd (projr ?b))"
  proof -
    have "\<not> isl ?b" by code_simp
    then show ?thesis by (simp only: prod.collapse) (rule Inr_projr)
  qed
  have nores: "list_all no_reserve ?cs" by simp
  have quiet: "trace example_drained = trace example_reserved" by code_simp
  have loud: "trace (snd (projr ?b)) \<noteq> trace example_drained" by code_simp
  have t0: "trace example_new = []" by code_simp
  have g0: "mAllocSizeGrow example_new = 2" by code_simp
  have sz: "sizeof_T example_type = 8" "alignof_T example_type = 8"
    "float_mul example_type = exact_mul"
    by (simp_all add: example_type_def type_of_def)
  have m6: "exact_mul 3 2 = 6" by (simp add: exact_mul_def)
  note inst = reserve_resets_growth
    [where T = example_type and h = zeroed and g = 2 and ?s0.0 = example_new and ?m0.0 = 4096
       and ?p0.0 = "fst (projr ?a)" and ?s1.0 = "snd (projr ?a)"
       and m = 4096 and n = 3 and s = example_new and s' = example_reserved
       and cs = ?cs and ps = ?ps and s'' = example_drained
       and m' = 8192 and p' = "fst (projr ?b)" and s''' = "snd (projr ?b)"]
  have c1: "trace (snd (projr ?a)) = [Malloc (1024 * sizeof_T example_type + alignof_T example_type) 4096]"
    using inst[THEN conjunct1] example_new ha by (elim impE) (intro conjI)
  have c2: "trace example_reserved
        = trace example_new @ [Malloc (3 * sizeof_T example_type + alignof_T example_type) 4096]
      \<and> mNextAllocSize example_reserved
        = float_mul example_type 3 (mAllocSizeGrow example_new)"
    using inst[THEN conjunct2, THEN conjunct1] example_reserved by (elim impE)
  have c3: "trace (snd (projr ?b)) = trace example_drained
      @ [Malloc (float_mul example_type 3 (mAllocSizeGrow example_new) * sizeof_T example_type
                 + alignof_T example_type) 8192]"
    using inst[THEN conjunct2, THEN conjunct2] example_reserved example_drained nores quiet hb loud
    by (elim impE) (intro conjI)
  have r: "trace example_reserved = [Malloc 32 4096]"
    using c2 by (simp add: t0 sz)
  show ?thesis
    using c1 c2 c3 r by (simp add: t0 g0 sz m6 quiet)
qed

section \<open>reserve when the allocator fails\<close>


text \<open>
  C2. When \<open>malloc\<close> fails the block request of \<open>reserve(n)\<close>, \<open>reserve\<close> should report the
  failure and leave the pool as it was. Its null test, which the source comments with
  ``Silent abort'', is applied to the pointer \<open>alignedMalloc\<close> returns, and that is
  \<open>align(nullptr + sizeof(void*), alignof(T))\<close>, never null for a supported type: the test
  does not fire and the loop pushes the chunks of a block that does not exist.

  On a new pool for a type of size 8 and alignment 8, in \<open>reserve(1)\<close> with \<open>malloc(16)\<close>
  failing, \<open>alignedMalloc\<close> returns the address 8, which no call to the allocator acquired,
  with the next-allocation count already at 2. The loop then stores a link through
  address 8. Where that address cannot be written the process faults there; where it can,
  as in the memory of this model, \<open>reserve\<close> returns with nothing reported, the address 8 on
  the free-chunk list, which was empty, and the count at 2, which was 1024.
\<close>

theorem reserve_ignores_malloc_failure:
  "map_sum id (\<lambda>(mem, s). (mem, acquired (trace s) mem, mNextAllocSize s, trace s))
       (alignedMalloc example_type 0 (example_new \<lparr> mNextAllocSize := 1 \<rparr>))
     = Inr (8, False, 2, [Malloc 16 0])
   \<and> (mNextAllocSize example_new, mChunkList example_new, trace example_new) = (1024, 0, [])
   \<and> map_option (map_sum id (\<lambda>s. (mNextAllocSize s, mChunkList s, trace s)))
        (reserve example_type 0 1 example_new) = Some (Inr (2, 8, [Malloc 16 0]))"
  by code_simp

section \<open>The free-chunk list that reserve builds\<close>








section \<open>Recycling\<close>

text \<open>
  The reuse itself: in every pool state, when \<open>deallocate(a)\<close> has completed, the next
  \<open>allocate\<close> returns \<open>a\<close>.
\<close>

lemma deallocate_then_allocate:
  assumes "deallocate a s = Inr s'"
  shows "\<exists>s''. allocate T m s' = Inr (a, s'')"
proof -
  have a0: "a \<noteq> 0" using assms by (auto simp add: deallocate_def)
  then have "s' = s \<lparr> memory := store64 (memory s) a (mChunkList s), mChunkList := a \<rparr>"
    using assms deallocate_push[OF a0, of s] by simp
  then have "mChunkList s' = a" by simp
  then show ?thesis using allocate_pop[of s' T m] a0 by simp
qed

text \<open>
  C7. After \<open>a = allocate(); deallocate(a)\<close> the next \<open>allocate\<close> should return \<open>a\<close>, and
  in \<open>a = allocate(); b = allocate(); deallocate(a); c = allocate()\<close> it should hold that
  \<open>c == a\<close> and \<open>b != a\<close>, in every pool state. The second part fails in a state the
  client can reach: \<open>allocate\<close> does not notice that \<open>malloc\<close> failed (C1), and two
  acquisitions that fail in a row start the cursor at the same address.

  A pool for a type of size 8 and alignment 8 with growth factor 1: \<open>reserve(1)\<close> is
  served by a block at 4096 and one \<open>allocate\<close> takes its chunk, 4104. In the state reached,
  \<open>a = allocate()\<close> and \<open>b = allocate()\<close>, with \<open>malloc(16)\<close> failing in both, both return the
  address 8: the first sets the cursor to 8 and its end to 16, so that the second finds no
  room and acquires again. No call reads or writes outside the block at 4096.
\<close>

theorem second_allocate_repeats_first:
  "map_option (map_sum id (\<lambda>(ps, s). (ps, trace s)))
      (program (type_of 8 8) zeroed 1 [Reserve 1 4096, Allocate 0, Allocate 0, Allocate 0])
    = Some (Inr ([4104, 8, 8], [Malloc 16 4096, Malloc 16 0, Malloc 16 0]))"
  by code_simp

section \<open>Supporting facts\<close>

text \<open>
  A chunk carved from the cursor is a multiple of the alignment: \<open>createChunk\<close> asserts it.
  The calls of a client never free a block; only the destructor does.
\<close>

lemma createChunk_aligned:
  "createChunk T s = Inr (p, s') \<Longrightarrow> p mod alignof_T T = 0"
  by (auto simp add: createChunk_def Let_def split: if_splits)

lemma run_never_frees:
  "run T cs s = Some (Inr (ps, s')) \<Longrightarrow>
     \<exists>evs. trace s' = trace s @ evs \<and> (\<forall>e \<in> set evs. \<exists>n r. e = Malloc n r)"
proof (induction cs arbitrary: s ps)
  case Nil
  then show ?case by simp
next
  case (Cons c cs)
  show ?case
  proof (cases c)
    case (Allocate m)
    then obtain p s1 ps1 where a: "allocate T m s = Inr (p, s1)"
      and r: "run T cs s1 = Some (Inr (ps1, s'))"
      using Cons.prems by (auto split: sum.splits option.splits)
    obtain evs where e: "trace s' = trace s1 @ evs" "\<forall>e \<in> set evs. \<exists>n r. e = Malloc n r"
      using Cons.IH[OF r] by blast
    show ?thesis
    proof (cases "trace s1 = trace s")
      case True
      then show ?thesis using e by auto
    next
      case False
      then have "trace s1 = trace s @ [Malloc (bytesToAlloc T s) m]"
        using allocate_trace[OF a] by auto
      then have "trace s' = trace s @ (Malloc (bytesToAlloc T s) m # evs)"
        using e(1) by simp
      moreover have "\<forall>e \<in> set (Malloc (bytesToAlloc T s) m # evs). \<exists>n r. e = Malloc n r"
        using e(2) by simp
      ultimately show ?thesis by blast
    qed
  next
    case (Deallocate p)
    then obtain s1 where d: "deallocate p s = Inr s1"
      and r: "run T cs s1 = Some (Inr (ps, s'))"
      using Cons.prems by (auto split: sum.splits)
    obtain evs where e: "trace s' = trace s1 @ evs" "\<forall>e \<in> set evs. \<exists>n r. e = Malloc n r"
      using Cons.IH[OF r] by blast
    then show ?thesis using deallocate_trace[OF d] by auto
  next
    case (Reserve n m)
    then obtain s1 where d: "reserve T m n s = Some (Inr s1)"
      and r: "run T cs s1 = Some (Inr (ps, s'))"
      using Cons.prems by (auto split: sum.splits option.splits)
    obtain evs where e: "trace s' = trace s1 @ evs" "\<forall>e \<in> set evs. \<exists>n r. e = Malloc n r"
      using Cons.IH[OF r] by blast
    have "trace s' = trace s @ (Malloc (n * sizeof_T T + alignof_T T) m # evs)"
      using e(1) reserve_request(1)[OF d] by simp
    moreover have "\<forall>e \<in> set (Malloc (n * sizeof_T T + alignof_T T) m # evs). \<exists>n r. e = Malloc n r"
      using e(2) by simp
    ultimately show ?thesis by blast
  qed
qed

section \<open>Allocator failure\<close>

text \<open>
  C1. When the free-chunk list is empty, the current block has no room and \<open>malloc\<close>
  fails, \<open>allocate\<close> should report the failure and keep the cursor out of memory that was
  never acquired. The code does neither. On a new pool of a type of size 8 and alignment
  8 whose first \<open>malloc(8200)\<close> returns null, \<open>allocate\<close> returns the pointer 8 as if it were
  a chunk, and leaves the cursor at 16 with the block end at 8200: \<open>allocBlock\<close> aligns
  \<open>nullptr + sizeof(void*)\<close> and never looks at what \<open>callMalloc\<close> returned.
\<close>

theorem allocate_ignores_malloc_failure:
  "map_option (map_sum id (\<lambda>(ps, s). (ps, mCurrentBlock s, mCurrentBlockEnd s, trace s)))
     (program (type_of 8 8) zeroed 2 [Allocate 0])
   = Some (Inr ([8], 16, 8200, [Malloc 8200 0]))"
  by code_simp

text \<open>
  C6. A chunk address returned by \<open>allocate\<close> should not be returned again before it is
  deallocated. After \<open>reserve(1)\<close> served by a block at 4096, four \<open>allocate\<close> calls with
  no \<open>deallocate\<close> at all return 4104, 8, 16 and 8 when the second and the fourth find
  \<open>malloc\<close> failing: each failed acquisition restarts the cursor at the same address 8.
\<close>

theorem allocate_repeats_address_after_malloc_failure:
  "map_option (map_sum id (\<lambda>(ps, s). (ps, trace s)))
     (program (type_of 8 8) zeroed 2
        [Reserve 1 4096, Allocate 0, Allocate 0, Allocate 0, Allocate 0])
   = Some (Inr ([4104, 8, 16, 8], [Malloc 16 4096, Malloc 24 0, Malloc 40 0]))"
  by code_simp

section \<open>Block size and layout\<close>

text \<open>
  C3. A block acquisition should request count * sizeof(T) + alignof(T) + pointer size
  bytes. \<open>bytesToAlloc\<close> leaves the pointer size out. For a type of size 8 and alignment 4
  the first acquisition of a new pool requests 8196 bytes; with the block at 4096, that is
  the bytes from 4096 up to 12292, the first chunk is at 4108 and the block end the cursor
  records is 12300, eight bytes past the memory acquired.
\<close>

theorem bytesToAlloc_omits_header:
  "map_option (map_sum id (\<lambda>(ps, s). (ps, trace s, mCurrentBlock s, mCurrentBlockEnd s)))
     (program (type_of 8 4) zeroed 2 [Allocate 4096])
   = Some (Inr ([4108], [Malloc 8196 4096], 4116, 12300))"
  by code_simp

text \<open>
  C5. Every address \<open>allocate\<close> returns should be a multiple of alignof(T), also for
  chunks recycled through the free-chunk list. Take a type of size 8 and alignment 4 and
  two \<open>reserve(1)\<close> calls served by \<open>malloc(12)\<close> at 4096 and at 4112. The only chunk of the
  first block is at 4108, so its link occupies bytes 4108 to 4115 and ends beyond the 12
  bytes acquired; linking the second block at 4112 overwrites the upper half of that link.
  The free-chunk list then leaves the pool's memory: the third \<open>allocate\<close> returns
  \<open>2 ^ 44\<close>, and the fourth returns whatever that memory holds, here 1. (Chunks carved
  from the cursor are aligned, \<open>createChunk_aligned\<close>; it is the recycled path that
  breaks.)
\<close>

theorem allocate_returns_misaligned_address:
  "map_option (map_sum id (\<lambda>(ps, s). (ps, trace s)))
     (program (type_of 8 4) (zeroed(17592186044416 := 1)) 2
        [Reserve 1 4096, Reserve 1 4112, Allocate 0, Allocate 0, Allocate 0, Allocate 0])
   = Some (Inr ([4124, 4108, 17592186044416, 1], [Malloc 12 4096, Malloc 12 4112]))"
  by code_simp

section \<open>Teardown\<close>

text \<open>
  C9. A pool that acquired k blocks should free exactly those k blocks when it is destroyed.
  For a type of size 16 and alignment 16 and a block at 4112, \<open>align\<close> moves 4120 back to
  4112, so the first chunk is the block's own header. Deallocating that chunk writes the
  free-chunk link over the block-list link, and the destructor then walks into the
  free-chunk list: one block was acquired, and \<open>free\<close> is called twice, the second time on
  the chunk address 4128. (That no block is freed before the destructor runs does hold,
  \<open>run_never_frees\<close>.)
\<close>

theorem destructor_frees_chunk_address:
  "lifetime (type_of 16 16) zeroed 2
     [Allocate 4112, Allocate 0, Deallocate 4128, Deallocate 4112]
   = Some (Inr [Malloc 16400 4112, Free 4112, Free 4128])"
  by code_simp

end
